theory Spec2Isabelle
  imports Main
begin

section \<open>The checkpoint store (database.ts)\<close>

text \<open>
  The \<^verbatim>\<open>Checkpoint\<close> interface of database.ts. The field \<^verbatim>\<open>id\<close> is written
  \<open>cp_id\<close> (the name \<open>id\<close> is HOL's identity function). JavaScript numbers that
  hold row ids, message counts and epoch milliseconds are modelled as \<open>int\<close>;
  \<^verbatim>\<open>string | null\<close> is \<open>string option\<close>.
\<close>

record Checkpoint =
  cp_id :: int
  sessionId :: string
  name :: string
  description :: "string option"
  messageCount :: int
  gitCommit :: "string option"
  createdAt :: int
  metadata :: string

text \<open>
  The \<^verbatim>\<open>CheckpointCreate\<close> interface, the argument \<^verbatim>\<open>data\<close> of
  \<^verbatim>\<open>createCheckpoint\<close>; its fields carry the prefix \<open>data_\<close>, as they share their
  names with those of \<^verbatim>\<open>Checkpoint\<close>. Optional fields are options; the metadata
  object is of an arbitrary type \<open>'m\<close>.
\<close>

record 'm CheckpointCreate =
  data_sessionId :: string
  data_name :: string
  data_description :: "string option"
  data_messageCount :: int
  data_gitCommit :: "string option"
  data_metadata :: "'m option"

text \<open>
  The table \<^verbatim>\<open>checkpoints\<close>: its rows in storage order (ascending rowid, the order
  of insertion) and the AUTOINCREMENT counter, the largest id ever handed out.
\<close>

record CheckpointDatabase =
  rows :: "Checkpoint list"
  autoinc :: int

definition emptyDatabase :: CheckpointDatabase where
  "emptyDatabase = \<lparr>rows = [], autoinc = 0\<rparr>"

text \<open>
  \<^verbatim>\<open>data.description || null\<close>: JavaScript's \<^verbatim>\<open>||\<close> takes its right operand when
  the left one is falsy, which for a string means undefined or the empty string.
\<close>

definition orNull :: "string option \<Rightarrow> string option" where
  "orNull v = (case v of None \<Rightarrow> None | Some s \<Rightarrow> if s = [] then None else Some s)"

text \<open>
  \<^verbatim>\<open>createCheckpoint\<close>. \<open>now\<close> is the value of \<^verbatim>\<open>Date.now()\<close>, \<open>stringify\<close> is
  \<^verbatim>\<open>JSON.stringify\<close> and \<open>emptyObject\<close> is \<^verbatim>\<open>{}\<close> (an object is never falsy, so
  \<^verbatim>\<open>data.metadata || {}\<close> replaces only a missing metadata). The new id is one more
  than the largest id that ever existed in the table. Returns the id and the new store.
\<close>

definition nextId :: "CheckpointDatabase \<Rightarrow> int" where
  "nextId db = fold max (map cp_id (rows db)) (autoinc db) + 1"

definition createCheckpoint ::
  "('m \<Rightarrow> string) \<Rightarrow> 'm \<Rightarrow> int \<Rightarrow> CheckpointDatabase \<Rightarrow> 'm CheckpointCreate
     \<Rightarrow> int \<times> CheckpointDatabase" where
  "createCheckpoint stringify emptyObject now db data =
     (let lastInsertRowid = nextId db;
          row = \<lparr>cp_id = lastInsertRowid,
                 sessionId = data_sessionId data,
                 name = data_name data,
                 description = orNull (data_description data),
                 messageCount = data_messageCount data,
                 gitCommit = orNull (data_gitCommit data),
                 createdAt = now,
                 metadata = stringify (case data_metadata data of
                                         None \<Rightarrow> emptyObject | Some m \<Rightarrow> m)\<rparr>
      in (lastInsertRowid, \<lparr>rows = rows db @ [row], autoinc = lastInsertRowid\<rparr>))"

text \<open>\<^verbatim>\<open>getCheckpoint\<close>: \<^verbatim>\<open>SELECT ... WHERE id = ?\<close>, the row or nothing.\<close>

definition getCheckpoint :: "CheckpointDatabase \<Rightarrow> int \<Rightarrow> Checkpoint option" where
  "getCheckpoint db i = find (\<lambda>r. cp_id r = i) (rows db)"

text \<open>
  \<^verbatim>\<open>ORDER BY created_at DESC\<close>: the query names no second key, so rows with equal
  \<^verbatim>\<open>created_at\<close> stay in the order in which the scan meets them (a stable sort of
  the storage order).
\<close>

definition orderByCreatedAtDesc :: "Checkpoint list \<Rightarrow> Checkpoint list" where
  "orderByCreatedAtDesc rs = sort_key (\<lambda>r. - createdAt r) rs"

text \<open>\<^verbatim>\<open>LIMIT ?\<close>: SQLite reads a negative limit as no limit.\<close>

definition sqlLimit :: "int \<Rightarrow> 'a list \<Rightarrow> 'a list" where
  "sqlLimit limit rs = (if limit < 0 then rs else take (nat limit) rs)"

definition listCheckpoints :: "CheckpointDatabase \<Rightarrow> string \<Rightarrow> int \<Rightarrow> Checkpoint list" where
  "listCheckpoints db sid limit =
     sqlLimit limit (orderByCreatedAtDesc (filter (\<lambda>r. sessionId r = sid) (rows db)))"

text \<open>The default argument \<^verbatim>\<open>limit = 50\<close>.\<close>

definition listCheckpointsDefault :: "CheckpointDatabase \<Rightarrow> string \<Rightarrow> Checkpoint list" where
  "listCheckpointsDefault db sid = listCheckpoints db sid 50"

text \<open>
  \<^verbatim>\<open>findCheckpointByName\<close>: \<^verbatim>\<open>WHERE session_id = ? AND name = ? ORDER BY created_at
  DESC LIMIT 1\<close>, the first row of the result or nothing. Text is compared byte by byte
  (SQLite's default BINARY collation), which is equality of strings.
\<close>

definition findCheckpointByName ::
  "CheckpointDatabase \<Rightarrow> string \<Rightarrow> string \<Rightarrow> Checkpoint option" where
  "findCheckpointByName db sid nm =
     (case sqlLimit 1 (orderByCreatedAtDesc
             (filter (\<lambda>r. sessionId r = sid \<and> name r = nm) (rows db))) of
        [] \<Rightarrow> None
      | r # _ \<Rightarrow> Some r)"

text \<open>\<^verbatim>\<open>deleteCheckpoint\<close>: whether a row was removed, and the new store.\<close>

definition deleteCheckpoint :: "CheckpointDatabase \<Rightarrow> int \<Rightarrow> bool \<times> CheckpointDatabase" where
  "deleteCheckpoint db i =
     (0 < length (filter (\<lambda>r. cp_id r = i) (rows db)),
      db\<lparr>rows := filter (\<lambda>r. cp_id r \<noteq> i) (rows db)\<rparr>)"

text \<open>\<^verbatim>\<open>deleteSessionCheckpoints\<close>: the number of rows removed, and the new store.\<close>

definition deleteSessionCheckpoints ::
  "CheckpointDatabase \<Rightarrow> string \<Rightarrow> int \<times> CheckpointDatabase" where
  "deleteSessionCheckpoints db sid =
     (int (length (filter (\<lambda>r. sessionId r = sid) (rows db))),
      db\<lparr>rows := filter (\<lambda>r. sessionId r \<noteq> sid) (rows db)\<rparr>)"

text \<open>
  The writes of the store as commands, and a run of commands. Every store the program
  works on is the result of such a run from the empty table.
\<close>

datatype 'm command =
    Create "'m CheckpointCreate" int
  | Delete int
  | DeleteSession string

fun exec :: "('m \<Rightarrow> string) \<Rightarrow> 'm \<Rightarrow> CheckpointDatabase \<Rightarrow> 'm command \<Rightarrow> CheckpointDatabase" where
  "exec stringify emptyObject db (Create data now) =
     snd (createCheckpoint stringify emptyObject now db data)"
| "exec stringify emptyObject db (Delete i) = snd (deleteCheckpoint db i)"
| "exec stringify emptyObject db (DeleteSession sid) = snd (deleteSessionCheckpoints db sid)"

definition run :: "('m \<Rightarrow> string) \<Rightarrow> 'm \<Rightarrow> CheckpointDatabase \<Rightarrow> 'm command list \<Rightarrow> CheckpointDatabase" where
  "run stringify emptyObject db cs = fold (\<lambda>c d. exec stringify emptyObject d c) cs db"

text \<open>
  A command that leaves the row with id \<open>i\<close> of session \<open>sid\<close> in the table: a
  creation, the deletion of another id, the deletion of another session.
\<close>

definition keeps :: "int \<Rightarrow> string \<Rightarrow> 'm command \<Rightarrow> bool" where
  "keeps i sid c =
     (case c of Create data now \<Rightarrow> True | Delete j \<Rightarrow> j \<noteq> i | DeleteSession s \<Rightarrow> s \<noteq> sid)"

text \<open>
  The invariant of the table: ids are unique (PRIMARY KEY) and none is larger than the
  AUTOINCREMENT counter.
\<close>

definition wellFormed :: "CheckpointDatabase \<Rightarrow> bool" where
  "wellFormed db \<longleftrightarrow>
     distinct (map cp_id (rows db)) \<and> list_all (\<lambda>r. cp_id r \<le> autoinc db) (rows db)"

section \<open>The restore resolver (restore.ts)\<close>

text \<open>
  A number inside a template literal: decimal digits, with a minus sign for a negative
  number (the numbers here are integers below \<open>10\<^sup>2\<^sup>1\<close>, which JavaScript prints
  without an exponent).
\<close>

definition digitChar :: "nat \<Rightarrow> char" where
  "digitChar d = ''0123456789'' ! d"

fun showNat :: "nat \<Rightarrow> string" where
  "showNat n = (if n < 10 then [digitChar n] else showNat (n div 10) @ [digitChar (n mod 10)])"

declare showNat.simps [simp del]

definition showInt :: "int \<Rightarrow> string" where
  "showInt i = (if i < 0 then CHR ''-'' # showNat (nat (- i)) else showNat (nat i))"

text \<open>
  Reading a decimal text back as a number; it is used only to show that the text
  \<open>showInt\<close> writes determines the number.
\<close>

definition digitVal :: "char \<Rightarrow> nat" where
  "digitVal c = of_char c - 48"

definition parseNat :: "string \<Rightarrow> nat" where
  "parseNat s = foldl (\<lambda>a c. 10 * a + digitVal c) 0 s"

text \<open>
  The interfaces of restore.ts. Where a field name is taken already, the field is
  written \<open>res_messageCount\<close> (of \<^verbatim>\<open>RestoreResult\<close>), \<open>fork_sessionId\<close> (of
  \<^verbatim>\<open>SessionForkOptions\<close>), \<open>fork_id\<close> and \<open>fork_title\<close> (of the fork response) and
  \<open>msg_id\<close> (of a message). In the functions the parameter \<^verbatim>\<open>checkpointId\<close> is
  written \<open>cid\<close> and \<^verbatim>\<open>sessionId\<close> is written \<open>sid\<close>.
\<close>

record RestoreResult =
  success :: bool
  checkpointId :: int
  checkpointName :: string
  newSessionId :: string
  res_messageCount :: int
  error :: "string option"

record SessionForkOptions =
  fork_sessionId :: string
  messageId :: "string option"
  title :: "string option"

record ForkResponse =
  fork_id :: string
  fork_title :: string

record 'c Message =
  msg_id :: string
  content :: 'c

text \<open>
  What a rejected promise carries: an \<^verbatim>\<open>Error\<close> with its \<^verbatim>\<open>message\<close>, or any other
  value, given by the text \<^verbatim>\<open>String(value)\<close> makes of it.
\<close>

datatype thrown = ErrorInstance string | NonError string

text \<open>
  \<^verbatim>\<open>OpenCodeSessionClient\<close>, the two collaborators. A call returns the resolved value
  (\<open>Inr\<close>) or what it rejected with (\<open>Inl\<close>).
\<close>

record 'c OpenCodeSessionClient =
  fork :: "SessionForkOptions \<Rightarrow> thrown + ForkResponse"
  messages :: "string \<Rightarrow> thrown + 'c Message list"

text \<open>The calls made on the client, in order: the trace of an operation.\<close>

datatype call = MessagesCall string | ForkCall SessionForkOptions

fun isForkCall :: "call \<Rightarrow> bool" where
  "isForkCall (ForkCall _) = True"
| "isForkCall (MessagesCall _) = False"

text \<open>\<^verbatim>\<open>messages[i]\<close>: undefined for an index outside the array, also a negative one.\<close>

definition jsIndex :: "'a list \<Rightarrow> int \<Rightarrow> 'a option" where
  "jsIndex xs i = (if 0 \<le> i \<and> i < int (length xs) then Some (xs ! nat i) else None)"

text \<open>
  The body of the \<^verbatim>\<open>try\<close> block of \<^verbatim>\<open>restore\<close>: a rejected call leaves the block
  with the thrown value (\<open>Inl\<close>), a \<^verbatim>\<open>return\<close> leaves it with a result (\<open>Inr\<close>).
\<close>

definition restoreTry ::
  "'c OpenCodeSessionClient \<Rightarrow> Checkpoint \<Rightarrow> string \<Rightarrow> int
     \<Rightarrow> (thrown + RestoreResult) \<times> call list" where
  "restoreTry client checkpoint sid cid =
     (case messages client sid of
        Inl e \<Rightarrow> (Inl e, [MessagesCall sid])
      | Inr msgs \<Rightarrow>
          if int (length msgs) < messageCount checkpoint then
            (Inr \<lparr>success = False, checkpointId = cid,
                  checkpointName = name checkpoint, newSessionId = [],
                  res_messageCount = int (length msgs),
                  error = Some (''Current session has '' @ showInt (int (length msgs))
                    @ '' messages, checkpoint expects ''
                    @ showInt (messageCount checkpoint))\<rparr>,
             [MessagesCall sid])
          else
            (case jsIndex msgs (messageCount checkpoint - 1) of
               None \<Rightarrow>
                 (Inr \<lparr>success = False, checkpointId = cid,
                       checkpointName = name checkpoint, newSessionId = [],
                       res_messageCount = 0,
                       error = Some (''Could not find message at position ''
                         @ showInt (messageCount checkpoint))\<rparr>,
                  [MessagesCall sid])
             | Some targetMessage \<Rightarrow>
                 (let options = \<lparr>fork_sessionId = sid,
                                 messageId = Some (msg_id targetMessage),
                                 title = Some (''Restored: '' @ name checkpoint)\<rparr>
                  in case fork client options of
                       Inl e \<Rightarrow> (Inl e, [MessagesCall sid, ForkCall options])
                     | Inr forked \<Rightarrow>
                         (Inr \<lparr>success = True, checkpointId = cid,
                               checkpointName = name checkpoint,
                               newSessionId = fork_id forked,
                               res_messageCount = messageCount checkpoint,
                               error = None\<rparr>,
                          [MessagesCall sid, ForkCall options]))))"

text \<open>\<^verbatim>\<open>error instanceof Error ? error.message : String(error)\<close>\<close>

fun errorText :: "thrown \<Rightarrow> string" where
  "errorText (ErrorInstance m) = m"
| "errorText (NonError s) = s"

text \<open>\<^verbatim>\<open>restore\<close>: the result and the calls made on the client.\<close>

definition restore ::
  "CheckpointDatabase \<Rightarrow> 'c OpenCodeSessionClient \<Rightarrow> string \<Rightarrow> int
     \<Rightarrow> RestoreResult \<times> call list" where
  "restore db client sid cid =
     (case getCheckpoint db cid of
        None \<Rightarrow>
          (\<lparr>success = False, checkpointId = cid, checkpointName = ''unknown'',
            newSessionId = [], res_messageCount = 0,
            error = Some (''Checkpoint '' @ showInt cid @ '' not found'')\<rparr>, [])
      | Some checkpoint \<Rightarrow>
          if sessionId checkpoint \<noteq> sid then
            (\<lparr>success = False, checkpointId = cid,
              checkpointName = name checkpoint, newSessionId = [], res_messageCount = 0,
              error = Some (''Checkpoint belongs to different session (''
                @ sessionId checkpoint @ '')'')\<rparr>, [])
          else
            (case restoreTry client checkpoint sid cid of
               (Inr result, trace) \<Rightarrow> (result, trace)
             | (Inl e, trace) \<Rightarrow>
                 (\<lparr>success = False, checkpointId = cid,
                   checkpointName = name checkpoint, newSessionId = [],
                   res_messageCount = 0, error = Some (errorText e)\<rparr>, trace)))"

text \<open>\<^verbatim>\<open>restoreByName\<close>\<close>

definition restoreByName ::
  "CheckpointDatabase \<Rightarrow> 'c OpenCodeSessionClient \<Rightarrow> string \<Rightarrow> string
     \<Rightarrow> RestoreResult \<times> call list" where
  "restoreByName db client sid checkpointName' =
     (case findCheckpointByName db sid checkpointName' of
        None \<Rightarrow>
          (\<lparr>success = False, checkpointId = 0, checkpointName = checkpointName',
            newSessionId = [], res_messageCount = 0,
            error = Some (''No checkpoint named \"'' @ checkpointName'
              @ ''\" found for session'')\<rparr>, [])
      | Some checkpoint \<Rightarrow> restore db client sid (cp_id checkpoint))"

text \<open>\<^verbatim>\<open>canRestore\<close>: its catch clause names a thrown non-Error \<^verbatim>\<open>Unknown error\<close>.\<close>

record Validation =
  valid :: bool
  reason :: "string option"

fun reasonText :: "thrown \<Rightarrow> string" where
  "reasonText (ErrorInstance m) = m"
| "reasonText (NonError s) = ''Unknown error''"

definition canRestore ::
  "CheckpointDatabase \<Rightarrow> 'c OpenCodeSessionClient \<Rightarrow> string \<Rightarrow> int
     \<Rightarrow> Validation \<times> call list" where
  "canRestore db client sid cid =
     (case getCheckpoint db cid of
        None \<Rightarrow> (\<lparr>valid = False, reason = Some ''Checkpoint not found''\<rparr>, [])
      | Some checkpoint \<Rightarrow>
          if sessionId checkpoint \<noteq> sid then
            (\<lparr>valid = False, reason = Some ''Checkpoint belongs to different session''\<rparr>, [])
          else
            (case messages client sid of
               Inl e \<Rightarrow> (\<lparr>valid = False, reason = Some (reasonText e)\<rparr>, [MessagesCall sid])
             | Inr msgs \<Rightarrow>
                 if int (length msgs) < messageCount checkpoint then
                   (\<lparr>valid = False,
                     reason = Some (''Session has '' @ showInt (int (length msgs))
                       @ '' messages, checkpoint requires ''
                       @ showInt (messageCount checkpoint))\<rparr>, [MessagesCall sid])
                 else (\<lparr>valid = True, reason = None\<rparr>, [MessagesCall sid])))"

text \<open>
  The branch of \<^verbatim>\<open>restore\<close> at \<^verbatim>\<open>messages.length < checkpoint.messageCount\<close>: it
  is reached when the checkpoint exists, belongs to the caller's session and the fetch
  resolved. \<open>liveCount\<close> is the length of the fetched sequence.
\<close>

definition insufficientMessages ::
  "CheckpointDatabase \<Rightarrow> 'c OpenCodeSessionClient \<Rightarrow> string \<Rightarrow> int \<Rightarrow> bool" where
  "insufficientMessages db client sid cid =
     (case getCheckpoint db cid of
        None \<Rightarrow> False
      | Some checkpoint \<Rightarrow>
          sessionId checkpoint = sid \<and>
          (case messages client sid of
             Inl e \<Rightarrow> False
           | Inr msgs \<Rightarrow> int (length msgs) < messageCount checkpoint))"

definition liveCount :: "'c OpenCodeSessionClient \<Rightarrow> string \<Rightarrow> int" where
  "liveCount client sid =
     (case messages client sid of Inl e \<Rightarrow> 0 | Inr msgs \<Rightarrow> int (length msgs))"

section \<open>Example stores and clients\<close>

text \<open>
  A store built by \<^verbatim>\<open>createCheckpoint\<close> from the empty table: one checkpoint of
  session \<^verbatim>\<open>s1\<close>, named \<^verbatim>\<open>A\<close>, with message count \<open>k\<close>; it gets id 1.
\<close>

definition exampleStringify :: "unit \<Rightarrow> string" where
  "exampleStringify m = ''{}''"

definition exampleData :: "int \<Rightarrow> unit CheckpointCreate" where
  "exampleData k = \<lparr>data_sessionId = ''s1'', data_name = ''A'', data_description = None,
     data_messageCount = k, data_gitCommit = None, data_metadata = None\<rparr>"

definition exampleCheckpoint :: "int \<Rightarrow> Checkpoint" where
  "exampleCheckpoint k = \<lparr>cp_id = 1, sessionId = ''s1'', name = ''A'', description = None,
     messageCount = k, gitCommit = None, createdAt = 1000, metadata = ''{}''\<rparr>"

definition exampleDb :: "int \<Rightarrow> CheckpointDatabase" where
  "exampleDb k = snd (createCheckpoint exampleStringify () 1000 emptyDatabase (exampleData k))"

definition exampleMessages :: "unit Message list" where
  "exampleMessages = [\<lparr>msg_id = ''msg-0'', content = ()\<rparr>,
     \<lparr>msg_id = ''msg-1'', content = ()\<rparr>, \<lparr>msg_id = ''msg-2'', content = ()\<rparr>]"

definition exampleForked :: ForkResponse where
  "exampleForked = \<lparr>fork_id = ''forked'', fork_title = ''Restored''\<rparr>"

text \<open>A client whose calls resolve, one whose fetch rejects, one whose fork rejects.\<close>

definition okClient :: "unit OpenCodeSessionClient" where
  "okClient = \<lparr>fork = (\<lambda>_. Inr exampleForked), messages = (\<lambda>_. Inr exampleMessages)\<rparr>"

definition fetchFailClient :: "thrown \<Rightarrow> unit OpenCodeSessionClient" where
  "fetchFailClient e = \<lparr>fork = (\<lambda>_. Inr exampleForked), messages = (\<lambda>_. Inl e)\<rparr>"

definition forkFailClient :: "thrown \<Rightarrow> unit OpenCodeSessionClient" where
  "forkFailClient e = \<lparr>fork = (\<lambda>_. Inl e), messages = (\<lambda>_. Inr exampleMessages)\<rparr>"

text \<open>
  Three checkpoints of one session created within the same millisecond, as the test
  \<^verbatim>\<open>should return checkpoints in reverse chronological order\<close> of database.test.ts
  creates them (back to back, with no delay between the calls).
\<close>

definition chronoData :: "string \<Rightarrow> int \<Rightarrow> unit CheckpointCreate" where
  "chronoData nm k = \<lparr>data_sessionId = ''session-chrono'', data_name = nm,
     data_description = None, data_messageCount = k, data_gitCommit = None,
     data_metadata = None\<rparr>"

definition chronoDb :: CheckpointDatabase where
  "chronoDb = run exampleStringify () emptyDatabase
     [Create (chronoData ''First'' 5) 1700000000000,
      Create (chronoData ''Second'' 10) 1700000000000,
      Create (chronoData ''Third'' 15) 1700000000000]"

text \<open>
  Three checkpoints of session \<^verbatim>\<open>s1\<close> with the same name and the creation times
  1000, 3000 and 2000, and one of session \<^verbatim>\<open>s2\<close> with that name, created at 4000.
\<close>

definition namedData :: "string \<Rightarrow> int \<Rightarrow> unit CheckpointCreate" where
  "namedData sid k = \<lparr>data_sessionId = sid, data_name = ''Working State'',
     data_description = None, data_messageCount = k, data_gitCommit = None,
     data_metadata = None\<rparr>"

definition namedDb :: CheckpointDatabase where
  "namedDb = run exampleStringify () emptyDatabase
     [Create (namedData ''s1'' 10) 1000, Create (namedData ''s1'' 20) 3000,
      Create (namedData ''s1'' 30) 2000, Create (namedData ''s2'' 40) 4000]"

text \<open>A creation request whose description is the empty string.\<close>

definition emptyDescriptionData :: "unit CheckpointCreate" where
  "emptyDescriptionData = \<lparr>data_sessionId = ''s1'', data_name = ''A'',
     data_description = Some [], data_messageCount = 2, data_gitCommit = Some ''abc123'',
     data_metadata = Some ()\<rparr>"

text \<open>
  A creation request with every field given, and commands that run after it: another
  creation, the deletion of another id and the deletion of another session.
\<close>

definition fullData :: "unit CheckpointCreate" where
  "fullData = \<lparr>data_sessionId = ''session-456'', data_name = ''Full Checkpoint'',
     data_description = Some ''Before major refactor'', data_messageCount = 25,
     data_gitCommit = Some ''abc123def456'', data_metadata = Some ()\<rparr>"

definition laterCommands :: "unit command list" where
  "laterCommands = [Create (exampleData 9) 2000, Delete 2, DeleteSession ''s1'']"

section \<open>Facts about the examples\<close>

lemma exampleDb_get: "getCheckpoint (exampleDb k) 1 = Some (exampleCheckpoint k)"
  by (simp add: exampleDb_def createCheckpoint_def emptyDatabase_def exampleData_def nextId_def
      getCheckpoint_def exampleCheckpoint_def orNull_def exampleStringify_def)

lemma exampleCheckpoint_sel [simp]:
  "sessionId (exampleCheckpoint k) = ''s1''" "name (exampleCheckpoint k) = ''A''"
  "messageCount (exampleCheckpoint k) = k"
  by (simp_all add: exampleCheckpoint_def)

lemma length_exampleMessages [simp]: "length exampleMessages = 3"
  by (simp add: exampleMessages_def)

lemma showInt_examples:
  "showInt 0 = ''0''" "showInt 3 = ''3''" "showInt 5 = ''5''"
  by (simp_all add: showInt_def showNat.simps digitChar_def)

section \<open>Numbers in error texts\<close>

lemma digit_cases:
  "d < (10::nat) \<Longrightarrow>
     d = 0 \<or> d = 1 \<or> d = 2 \<or> d = 3 \<or> d = 4 \<or> d = 5 \<or> d = 6 \<or> d = 7 \<or> d = 8 \<or> d = 9"
  by arith

lemma digitVal_digitChar: "d < 10 \<Longrightarrow> digitVal (digitChar d) = d"
  using digit_cases [of d] by (auto simp: digitVal_def digitChar_def)

lemma digitChar_not_minus: "d < 10 \<Longrightarrow> digitChar d \<noteq> CHR ''-''"
  using digit_cases [of d] by (auto simp: digitChar_def)

lemma digitChar_not_space: "d < 10 \<Longrightarrow> digitChar d \<noteq> CHR '' ''"
  using digit_cases [of d] by (auto simp: digitChar_def)

lemma parseNat_snoc: "parseNat (s @ [c]) = 10 * parseNat s + digitVal c"
  by (simp add: parseNat_def)

lemma parseNat_showNat: "parseNat (showNat n) = n"
proof (induction n rule: showNat.induct)
  case (1 n)
  show ?case
  proof (cases "n < 10")
    case True
    then show ?thesis
      by (subst showNat.simps) (simp add: parseNat_def digitVal_digitChar)
  next
    case False
    with 1 have "parseNat (showNat (n div 10)) = n div 10" by simp
    with False show ?thesis
      by (subst showNat.simps) (simp add: parseNat_snoc digitVal_digitChar)
  qed
qed

lemma showNat_inject: "showNat m = showNat n \<Longrightarrow> m = n"
  by (metis parseNat_showNat)

lemma showNat_head: "\<exists>d cs. d < 10 \<and> showNat n = digitChar d # cs"
proof (induction n rule: showNat.induct)
  case (1 n)
  show ?case
  proof (cases "n < 10")
    case True
    then show ?thesis by (subst showNat.simps) auto
  next
    case False
    with 1 obtain d cs where "d < 10" "showNat (n div 10) = digitChar d # cs" by auto
    with False show ?thesis by (subst showNat.simps) auto
  qed
qed

lemma showNat_not_minus: "showNat n \<noteq> CHR ''-'' # cs"
proof
  assume a: "showNat n = CHR ''-'' # cs"
  from showNat_head [of n] obtain d ds where d: "d < 10" "showNat n = digitChar d # ds"
    by blast
  with a have "digitChar d = CHR ''-''" by simp
  with digitChar_not_minus [OF d(1)] show False by simp
qed

text \<open>Two numbers with the same text are the same number.\<close>

lemma showInt_inject: "showInt i = showInt j \<Longrightarrow> i = j"
proof -
  assume eq: "showInt i = showInt j"
  show ?thesis
  proof (cases "i < 0"; cases "j < 0")
    assume "i < 0" "j < 0"
    with eq have "showNat (nat (- i)) = showNat (nat (- j))" by (simp add: showInt_def)
    then have "nat (- i) = nat (- j)" by (rule showNat_inject)
    with \<open>i < 0\<close> \<open>j < 0\<close> show ?thesis by simp
  next
    assume "i < 0" "\<not> j < 0"
    with eq showNat_not_minus [of "nat j" "showNat (nat (- i))"] show ?thesis
      by (simp add: showInt_def)
  next
    assume "\<not> i < 0" "j < 0"
    with eq showNat_not_minus [of "nat i" "showNat (nat (- j))"] show ?thesis
      by (simp add: showInt_def)
  next
    assume "\<not> i < 0" "\<not> j < 0"
    with eq have "showNat (nat i) = showNat (nat j)" by (simp add: showInt_def)
    then have "nat i = nat j" by (rule showNat_inject)
    with \<open>\<not> i < 0\<close> \<open>\<not> j < 0\<close> show ?thesis by simp
  qed
qed

lemma showNat_no_space: "CHR '' '' \<notin> set (showNat n)"
proof (induction n rule: showNat.induct)
  case (1 n)
  show ?case
  proof (cases "n < 10")
    case True
    then show ?thesis
      by (subst showNat.simps) (simp add: digitChar_not_space [symmetric])
  next
    case False
    with 1 have "CHR '' '' \<notin> set (showNat (n div 10))" by simp
    moreover have "digitChar (n mod 10) \<noteq> CHR '' ''"
      by (rule digitChar_not_space) simp
    ultimately show ?thesis using False
      by (subst showNat.simps) auto
  qed
qed

lemma showInt_no_space: "CHR '' '' \<notin> set (showInt i)"
  by (simp add: showInt_def showNat_no_space)

lemma split_at_first:
  assumes "x \<notin> set xs" and "x \<notin> set xs'" and "xs @ x # ys = xs' @ x # ys'"
  shows "xs = xs' \<and> ys = ys'"
proof -
  have a: "takeWhile (\<lambda>c. c \<noteq> x) (xs @ x # ys) = xs"
    using assms(1) by (auto simp: takeWhile_tail)
  have b: "takeWhile (\<lambda>c. c \<noteq> x) (xs' @ x # ys') = xs'"
    using assms(2) by (auto simp: takeWhile_tail)
  from a b assms(3) have "xs = xs'" by simp
  with assms(3) show ?thesis by simp
qed

text \<open>
  The text of the drift failure states both counts: two such texts are equal only when
  the live counts are equal and the expected counts are equal.
\<close>

lemma drift_text_determines_counts:
  assumes "''Current session has '' @ showInt n @ '' messages, checkpoint expects '' @ showInt k
         = ''Current session has '' @ showInt n' @ '' messages, checkpoint expects '' @ showInt k'"
  shows "n = n' \<and> k = k'"
proof -
  from assms have
    "showInt n @ CHR '' '' # (''messages, checkpoint expects '' @ showInt k)
     = showInt n' @ CHR '' '' # (''messages, checkpoint expects '' @ showInt k')"
    by simp
  then have "showInt n = showInt n'
      \<and> ''messages, checkpoint expects '' @ showInt k
          = ''messages, checkpoint expects '' @ showInt k'"
    using split_at_first [OF showInt_no_space [of n] showInt_no_space [of n']]
    by blast
  then show ?thesis by (auto dest: showInt_inject)
qed

section \<open>The fork boundary\<close>

text \<open>
  C1. A checkpoint of the caller's session with message count \<open>k \<ge> 1\<close> and a live
  sequence of at least \<open>k\<close> messages: \<^verbatim>\<open>restore\<close> fetches the messages and calls fork
  once, with the id of the message at index \<open>k - 1\<close>; when fork resolves, the result is
  the success record with the checkpoint's name, the id of the fork response and \<open>k\<close>.
\<close>

theorem restore_fork_boundary:
  assumes "getCheckpoint db cid = Some checkpoint"
    and "sessionId checkpoint = sid"
    and "messageCount checkpoint = k" and "1 \<le> k"
    and "messages client sid = Inr msgs" and "k \<le> int (length msgs)"
  shows "snd (restore db client sid cid) =
           [MessagesCall sid,
            ForkCall \<lparr>fork_sessionId = sid,
                      messageId = Some (msg_id (msgs ! nat (k - 1))),
                      title = Some (''Restored: '' @ name checkpoint)\<rparr>]
         \<and> (\<forall>forked.
               fork client \<lparr>fork_sessionId = sid,
                            messageId = Some (msg_id (msgs ! nat (k - 1))),
                            title = Some (''Restored: '' @ name checkpoint)\<rparr> = Inr forked
               \<longrightarrow> fst (restore db client sid cid) =
                     \<lparr>success = True, checkpointId = cid, checkpointName = name checkpoint,
                      newSessionId = fork_id forked, res_messageCount = k, error = None\<rparr>)"
proof -
  have idx: "jsIndex msgs (k - 1) = Some (msgs ! nat (k - 1))"
    using assms(4,6) by (simp add: jsIndex_def)
  have enough: "\<not> int (length msgs) < messageCount checkpoint"
    using assms(3,6) by simp
  show ?thesis
    using assms(1,2,3,5) idx enough
    by (auto simp: restore_def restoreTry_def Let_def split: sum.splits)
qed

theorem restore_fork_boundary_witness:
  "getCheckpoint (exampleDb 2) 1 = Some (exampleCheckpoint 2)
   \<and> sessionId (exampleCheckpoint 2) = ''s1''
   \<and> messageCount (exampleCheckpoint 2) = 2 \<and> (1::int) \<le> 2
   \<and> messages okClient ''s1'' = Inr exampleMessages
   \<and> (2::int) \<le> int (length exampleMessages)
   \<and> fork okClient \<lparr>fork_sessionId = ''s1'', messageId = Some ''msg-1'',
                      title = Some ''Restored: A''\<rparr> = Inr exampleForked
   \<and> restore (exampleDb 2) okClient ''s1'' 1 =
       (\<lparr>success = True, checkpointId = 1, checkpointName = ''A'',
         newSessionId = ''forked'', res_messageCount = 2, error = None\<rparr>,
        [MessagesCall ''s1'',
         ForkCall \<lparr>fork_sessionId = ''s1'', messageId = Some ''msg-1'',
                   title = Some ''Restored: A''\<rparr>])"
proof -
  have h1: "getCheckpoint (exampleDb 2) 1 = Some (exampleCheckpoint 2)"
    by (rule exampleDb_get)
  have h2: "sessionId (exampleCheckpoint 2) = ''s1''" by simp
  have h3: "messageCount (exampleCheckpoint 2) = 2" by simp
  have h4: "(1::int) \<le> 2" by simp
  have h5: "messages okClient ''s1'' = Inr exampleMessages" by (simp add: okClient_def)
  have h6: "(2::int) \<le> int (length exampleMessages)" by simp
  have m: "msg_id (exampleMessages ! nat (2 - 1)) = ''msg-1''"
    by (simp add: exampleMessages_def)
  have f: "fork okClient \<lparr>fork_sessionId = ''s1'', messageId = Some ''msg-1'',
                      title = Some ''Restored: A''\<rparr> = Inr exampleForked"
    by (simp add: okClient_def)
  from restore_fork_boundary [OF h1 h2 h3 h4 h5 h6] m f
  have "restore (exampleDb 2) okClient ''s1'' 1 =
       (\<lparr>success = True, checkpointId = 1, checkpointName = ''A'',
         newSessionId = ''forked'', res_messageCount = 2, error = None\<rparr>,
        [MessagesCall ''s1'',
         ForkCall \<lparr>fork_sessionId = ''s1'', messageId = Some ''msg-1'',
                   title = Some ''Restored: A''\<rparr>])"
    by (simp add: prod_eq_iff exampleForked_def)
  with h1 h2 h3 h5 h6 f show ?thesis by simp
qed

section \<open>A checkpoint with message count 0\<close>

text \<open>
  C2, as stated, fails: for a checkpoint with message count 0 of the caller's session
  and a live sequence of three messages, \<^verbatim>\<open>restore\<close> returns a failure and the only
  call on the client is the message fetch; fork is not called.
\<close>

theorem restore_zero_count_counterexample:
  "messageCount (exampleCheckpoint 0) = 0
   \<and> getCheckpoint (exampleDb 0) 1 = Some (exampleCheckpoint 0)
   \<and> sessionId (exampleCheckpoint 0) = ''s1''
   \<and> messages okClient ''s1'' = Inr exampleMessages
   \<and> 1 \<le> length exampleMessages
   \<and> restore (exampleDb 0) okClient ''s1'' 1 =
       (\<lparr>success = False, checkpointId = 1, checkpointName = ''A'',
         newSessionId = [], res_messageCount = 0,
         error = Some ''Could not find message at position 0''\<rparr>,
        [MessagesCall ''s1''])"
  by (simp add: exampleDb_get restore_def restoreTry_def okClient_def jsIndex_def
      showInt_examples)

text \<open>
  C2, amended. For a checkpoint with message count 0 of the caller's session, whenever
  the message fetch resolves (with any number of messages), \<^verbatim>\<open>restore\<close> fails with
  the reason \<^verbatim>\<open>Could not find message at position 0\<close> and message count 0, after the
  message fetch alone: index \<open>-1\<close> of the sequence is undefined, and fork is not called.
\<close>

theorem restore_zero_count_fails:
  assumes "getCheckpoint db cid = Some checkpoint"
    and "sessionId checkpoint = sid"
    and "messageCount checkpoint = 0"
    and "messages client sid = Inr msgs"
  shows "restore db client sid cid =
           (\<lparr>success = False, checkpointId = cid, checkpointName = name checkpoint,
             newSessionId = [], res_messageCount = 0,
             error = Some ''Could not find message at position 0''\<rparr>,
            [MessagesCall sid])"
  using assms
  by (simp add: restore_def restoreTry_def jsIndex_def showInt_examples)

theorem restore_zero_count_fails_witness:
  "getCheckpoint (exampleDb 0) 1 = Some (exampleCheckpoint 0)
   \<and> sessionId (exampleCheckpoint 0) = ''s1''
   \<and> messageCount (exampleCheckpoint 0) = 0
   \<and> messages okClient ''s1'' = Inr exampleMessages
   \<and> restore (exampleDb 0) okClient ''s1'' 1 =
       (\<lparr>success = False, checkpointId = 1, checkpointName = ''A'',
         newSessionId = [], res_messageCount = 0,
         error = Some ''Could not find message at position 0''\<rparr>,
        [MessagesCall ''s1''])"
proof -
  have h1: "getCheckpoint (exampleDb 0) 1 = Some (exampleCheckpoint 0)"
    by (rule exampleDb_get)
  have h2: "sessionId (exampleCheckpoint 0) = ''s1''" by simp
  have h3: "messageCount (exampleCheckpoint 0) = 0" by simp
  have h4: "messages okClient ''s1'' = Inr exampleMessages" by (simp add: okClient_def)
  from restore_zero_count_fails [OF h1 h2 h3 h4] h1 h2 h3 h4 show ?thesis by simp
qed

section \<open>The dry run against the restore\<close>

text \<open>
  C3. \<^verbatim>\<open>canRestore\<close> and \<^verbatim>\<open>restore\<close> on the same store, session, checkpoint and
  client, for a checkpoint with message count 0: \<^verbatim>\<open>canRestore\<close> answers valid, while
  \<^verbatim>\<open>restore\<close> stops at its check of the boundary message and never calls fork.
\<close>

theorem canRestore_accepts_what_restore_rejects:
  "canRestore (exampleDb 0) okClient ''s1'' 1 =
     (\<lparr>valid = True, reason = None\<rparr>, [MessagesCall ''s1''])
   \<and> fst (restore (exampleDb 0) okClient ''s1'' 1) =
       \<lparr>success = False, checkpointId = 1, checkpointName = ''A'',
         newSessionId = [], res_messageCount = 0,
         error = Some ''Could not find message at position 0''\<rparr>
   \<and> filter isForkCall (snd (restore (exampleDb 0) okClient ''s1'' 1)) = []"
  by (simp add: exampleDb_get restore_def restoreTry_def canRestore_def okClient_def jsIndex_def
      showInt_examples)

text \<open>
  Where the two do agree: an absent checkpoint is rejected by both, and for a checkpoint
  with message count at least 1 \<^verbatim>\<open>canRestore\<close> answers valid exactly when
  \<^verbatim>\<open>restore\<close> reaches the fork call.
\<close>

lemma canRestore_not_found:
  assumes "getCheckpoint db cid = None"
  shows "\<not> valid (fst (canRestore db client sid cid))"
    and "filter isForkCall (snd (restore db client sid cid)) = []"
  using assms by (simp_all add: canRestore_def restore_def)

lemma canRestore_agrees_from_one:
  assumes "getCheckpoint db cid = Some checkpoint" and "1 \<le> messageCount checkpoint"
  shows "valid (fst (canRestore db client sid cid))
           \<longleftrightarrow> filter isForkCall (snd (restore db client sid cid)) \<noteq> []"
  using assms
  by (auto simp: canRestore_def restore_def restoreTry_def jsIndex_def Let_def split: sum.splits)

section \<open>Drift\<close>

text \<open>
  C4. A checkpoint of the caller's session with message count \<open>k\<close> and a live sequence
  of \<open>n < k\<close> messages: \<^verbatim>\<open>restore\<close> fails, its error text holds \<open>n\<close> and \<open>k\<close> in
  decimal (by \<open>drift_text_determines_counts\<close> the text determines both), and the only
  call on the client is the message fetch: fork is not called.
\<close>

theorem restore_insufficient_messages:
  assumes "getCheckpoint db cid = Some checkpoint"
    and "sessionId checkpoint = sid"
    and "messageCount checkpoint = k"
    and "messages client sid = Inr msgs" and "int (length msgs) < k"
  shows "restore db client sid cid =
           (\<lparr>success = False, checkpointId = cid, checkpointName = name checkpoint,
             newSessionId = [], res_messageCount = int (length msgs),
             error = Some (''Current session has '' @ showInt (int (length msgs))
               @ '' messages, checkpoint expects '' @ showInt k)\<rparr>,
            [MessagesCall sid])"
  using assms by (simp add: restore_def restoreTry_def)

theorem restore_insufficient_messages_witness:
  "getCheckpoint (exampleDb 5) 1 = Some (exampleCheckpoint 5)
   \<and> sessionId (exampleCheckpoint 5) = ''s1''
   \<and> messageCount (exampleCheckpoint 5) = 5
   \<and> messages okClient ''s1'' = Inr exampleMessages
   \<and> int (length exampleMessages) < 5
   \<and> restore (exampleDb 5) okClient ''s1'' 1 =
       (\<lparr>success = False, checkpointId = 1, checkpointName = ''A'',
         newSessionId = [], res_messageCount = 3,
         error = Some ''Current session has 3 messages, checkpoint expects 5''\<rparr>,
        [MessagesCall ''s1''])"
proof -
  have h1: "getCheckpoint (exampleDb 5) 1 = Some (exampleCheckpoint 5)"
    by (rule exampleDb_get)
  have h2: "sessionId (exampleCheckpoint 5) = ''s1''" by simp
  have h3: "messageCount (exampleCheckpoint 5) = 5" by simp
  have h4: "messages okClient ''s1'' = Inr exampleMessages" by (simp add: okClient_def)
  have h5: "int (length exampleMessages) < 5" by simp
  from restore_insufficient_messages [OF h1 h2 h3 h4 h5] h1 h2 h3 h4 h5 showInt_examples
  show ?thesis by simp
qed

section \<open>Ownership\<close>

text \<open>
  C5. A checkpoint stored under another session than the one the caller passes makes
  \<^verbatim>\<open>restore\<close> fail with a reason that contains the owning session's id, and no call
  reaches the client: neither the message fetch nor the fork.
\<close>

theorem restore_ownership_mismatch:
  assumes "getCheckpoint db cid = Some checkpoint"
    and "sessionId checkpoint \<noteq> sid"
  shows "restore db client sid cid =
           (\<lparr>success = False, checkpointId = cid,
             checkpointName = name checkpoint, newSessionId = [], res_messageCount = 0,
             error = Some (''Checkpoint belongs to different session (''
               @ sessionId checkpoint @ '')'')\<rparr>, [])"
  using assms by (simp add: restore_def)

theorem restore_ownership_mismatch_witness:
  "getCheckpoint (exampleDb 2) 1 = Some (exampleCheckpoint 2)
   \<and> sessionId (exampleCheckpoint 2) \<noteq> ''s2''
   \<and> restore (exampleDb 2) okClient ''s2'' 1 =
       (\<lparr>success = False, checkpointId = 1, checkpointName = ''A'',
         newSessionId = [], res_messageCount = 0,
         error = Some ''Checkpoint belongs to different session (s1)''\<rparr>, [])"
proof -
  have h1: "getCheckpoint (exampleDb 2) 1 = Some (exampleCheckpoint 2)"
    by (rule exampleDb_get)
  have h2: "sessionId (exampleCheckpoint 2) \<noteq> ''s2''" by simp
  from restore_ownership_mismatch [OF h1 h2, of okClient] h1 h2 show ?thesis by simp
qed

section \<open>Errors of the collaborators\<close>

text \<open>
  C9. Whatever value \<open>e\<close> the message fetch or the fork call rejects with,
  \<^verbatim>\<open>restore\<close> returns a result (it is a total function into results: the catch
  clause closes the \<^verbatim>\<open>try\<close> block), with \<^verbatim>\<open>success: false\<close> and the text of \<open>e\<close> as
  the error: the \<^verbatim>\<open>message\<close> of an Error, \<^verbatim>\<open>String(e)\<close> of any other value. The
  fetch is called for an existing checkpoint of the caller's session; fork is called
  when, in addition, the fetch resolved with at least \<open>messageCount \<ge> 1\<close> messages.
\<close>

theorem restore_catches_collaborator_errors:
  assumes "getCheckpoint db cid = Some checkpoint" and "sessionId checkpoint = sid"
  shows "(messages client sid = Inl e \<longrightarrow>
            restore db client sid cid =
              (\<lparr>success = False, checkpointId = cid, checkpointName = name checkpoint,
                newSessionId = [], res_messageCount = 0, error = Some (errorText e)\<rparr>,
               [MessagesCall sid]))
       \<and> (\<forall>msgs options.
            messages client sid = Inr msgs
            \<and> 1 \<le> messageCount checkpoint \<and> messageCount checkpoint \<le> int (length msgs)
            \<and> options = \<lparr>fork_sessionId = sid,
                  messageId = Some (msg_id (msgs ! nat (messageCount checkpoint - 1))),
                  title = Some (''Restored: '' @ name checkpoint)\<rparr>
            \<and> fork client options = Inl e \<longrightarrow>
            restore db client sid cid =
              (\<lparr>success = False, checkpointId = cid, checkpointName = name checkpoint,
                newSessionId = [], res_messageCount = 0, error = Some (errorText e)\<rparr>,
               [MessagesCall sid, ForkCall options]))"
  using assms
  by (auto simp: restore_def restoreTry_def jsIndex_def Let_def split: sum.splits)

theorem restore_catches_collaborator_errors_witness:
  "getCheckpoint (exampleDb 2) 1 = Some (exampleCheckpoint 2)
   \<and> sessionId (exampleCheckpoint 2) = ''s1''
   \<and> messages (fetchFailClient (ErrorInstance ''API connection failed'')) ''s1''
       = Inl (ErrorInstance ''API connection failed'')
   \<and> restore (exampleDb 2) (fetchFailClient (ErrorInstance ''API connection failed'')) ''s1'' 1 =
       (\<lparr>success = False, checkpointId = 1, checkpointName = ''A'', newSessionId = [],
         res_messageCount = 0, error = Some ''API connection failed''\<rparr>,
        [MessagesCall ''s1''])
   \<and> messages (forkFailClient (NonError ''boom'')) ''s1'' = Inr exampleMessages
   \<and> 1 \<le> messageCount (exampleCheckpoint 2)
   \<and> messageCount (exampleCheckpoint 2) \<le> int (length exampleMessages)
   \<and> fork (forkFailClient (NonError ''boom''))
        \<lparr>fork_sessionId = ''s1'', messageId = Some ''msg-1'',
          title = Some ''Restored: A''\<rparr> = Inl (NonError ''boom'')
   \<and> restore (exampleDb 2) (forkFailClient (NonError ''boom'')) ''s1'' 1 =
       (\<lparr>success = False, checkpointId = 1, checkpointName = ''A'', newSessionId = [],
         res_messageCount = 0, error = Some ''boom''\<rparr>,
        [MessagesCall ''s1'',
         ForkCall \<lparr>fork_sessionId = ''s1'', messageId = Some ''msg-1'',
                   title = Some ''Restored: A''\<rparr>])"
proof -
  have h1: "getCheckpoint (exampleDb 2) 1 = Some (exampleCheckpoint 2)"
    by (rule exampleDb_get)
  have h2: "sessionId (exampleCheckpoint 2) = ''s1''" by simp
  have m: "msg_id (exampleMessages ! nat (2 - 1)) = ''msg-1''"
    by (simp add: exampleMessages_def)
  from restore_catches_collaborator_errors [OF h1 h2,
      of "fetchFailClient (ErrorInstance ''API connection failed'')"
         "ErrorInstance ''API connection failed''"]
  have a: "restore (exampleDb 2) (fetchFailClient (ErrorInstance ''API connection failed''))
             ''s1'' 1 =
       (\<lparr>success = False, checkpointId = 1, checkpointName = ''A'', newSessionId = [],
         res_messageCount = 0, error = Some ''API connection failed''\<rparr>,
        [MessagesCall ''s1''])"
    by (simp add: fetchFailClient_def)
  from restore_catches_collaborator_errors [OF h1 h2,
      of "forkFailClient (NonError ''boom'')" "NonError ''boom''"] m
  have b: "restore (exampleDb 2) (forkFailClient (NonError ''boom'')) ''s1'' 1 =
       (\<lparr>success = False, checkpointId = 1, checkpointName = ''A'', newSessionId = [],
         res_messageCount = 0, error = Some ''boom''\<rparr>,
        [MessagesCall ''s1'',
         ForkCall \<lparr>fork_sessionId = ''s1'', messageId = Some ''msg-1'',
                   title = Some ''Restored: A''\<rparr>])"
    by (simp add: forkFailClient_def)
  from a b h1 show ?thesis by (simp add: fetchFailClient_def forkFailClient_def)
qed

section \<open>The fields of a failed result\<close>

lemma restore_failure_fields:
  assumes "\<not> success (fst (restore db client sid cid))"
  shows "newSessionId (fst (restore db client sid cid)) = []
       \<and> res_messageCount (fst (restore db client sid cid)) =
           (if insufficientMessages db client sid cid then liveCount client sid else 0)"
  using assms
  by (auto simp: restore_def restoreTry_def insufficientMessages_def liveCount_def Let_def
      split: option.splits sum.splits if_splits)

lemma restore_failure_not_recorded:
  assumes "\<not> success (fst (restore db client sid cid))"
    and "getCheckpoint db cid = Some checkpoint" and "messageCount checkpoint \<noteq> 0"
  shows "res_messageCount (fst (restore db client sid cid)) \<noteq> messageCount checkpoint"
  using assms
  by (auto simp: restore_def restoreTry_def Let_def
      split: option.splits sum.splits if_splits)

text \<open>
  C10. In every failed result of \<^verbatim>\<open>restore\<close> and of \<^verbatim>\<open>restoreByName\<close> the new
  session id is the empty string; the message count is the length of the live sequence
  in the insufficient-messages case and 0 in every other case (also for an unknown
  name). The count is never taken from the checkpoint: it differs from every recorded
  count other than 0 (a recorded count of 0 is the one value the default 0 can meet).
\<close>

theorem failed_result_fields:
  "(\<not> success (fst (restore db client sid cid)) \<longrightarrow>
      newSessionId (fst (restore db client sid cid)) = []
      \<and> res_messageCount (fst (restore db client sid cid)) =
           (if insufficientMessages db client sid cid then liveCount client sid else 0)
      \<and> (\<forall>checkpoint. getCheckpoint db cid = Some checkpoint
             \<and> messageCount checkpoint \<noteq> 0 \<longrightarrow>
           res_messageCount (fst (restore db client sid cid)) \<noteq> messageCount checkpoint))
   \<and> (\<not> success (fst (restoreByName db client sid nm)) \<longrightarrow>
      newSessionId (fst (restoreByName db client sid nm)) = []
      \<and> res_messageCount (fst (restoreByName db client sid nm)) =
           (case findCheckpointByName db sid nm of
              None \<Rightarrow> 0
            | Some c \<Rightarrow> if insufficientMessages db client sid (cp_id c)
                        then liveCount client sid else 0)
      \<and> (\<forall>c checkpoint. findCheckpointByName db sid nm = Some c
             \<and> getCheckpoint db (cp_id c) = Some checkpoint
             \<and> messageCount checkpoint \<noteq> 0 \<longrightarrow>
           res_messageCount (fst (restoreByName db client sid nm))
             \<noteq> messageCount checkpoint))"
proof (intro conjI impI allI)
  assume f: "\<not> success (fst (restore db client sid cid))"
  from restore_failure_fields [OF f]
  show "newSessionId (fst (restore db client sid cid)) = []"
    and "res_messageCount (fst (restore db client sid cid)) =
           (if insufficientMessages db client sid cid then liveCount client sid else 0)"
    by simp_all
  fix checkpoint
  assume "getCheckpoint db cid = Some checkpoint \<and> messageCount checkpoint \<noteq> 0"
  with f show "res_messageCount (fst (restore db client sid cid)) \<noteq> messageCount checkpoint"
    by (simp add: restore_failure_not_recorded)
next
  assume f: "\<not> success (fst (restoreByName db client sid nm))"
  have both: "newSessionId (fst (restoreByName db client sid nm)) = []
      \<and> res_messageCount (fst (restoreByName db client sid nm)) =
           (case findCheckpointByName db sid nm of
              None \<Rightarrow> 0
            | Some c \<Rightarrow> if insufficientMessages db client sid (cp_id c)
                        then liveCount client sid else 0)"
  proof (cases "findCheckpointByName db sid nm")
    case None
    then show ?thesis by (simp add: restoreByName_def)
  next
    case (Some c)
    with f have "\<not> success (fst (restore db client sid (cp_id c)))"
      by (simp add: restoreByName_def)
    from restore_failure_fields [OF this] Some show ?thesis
      by (simp add: restoreByName_def)
  qed
  from both show "newSessionId (fst (restoreByName db client sid nm)) = []" by simp
  from both show "res_messageCount (fst (restoreByName db client sid nm)) =
           (case findCheckpointByName db sid nm of
              None \<Rightarrow> 0
            | Some c \<Rightarrow> if insufficientMessages db client sid (cp_id c)
                        then liveCount client sid else 0)" by simp
  fix c checkpoint
  assume a: "findCheckpointByName db sid nm = Some c
             \<and> getCheckpoint db (cp_id c) = Some checkpoint
             \<and> messageCount checkpoint \<noteq> 0"
  with f have "\<not> success (fst (restore db client sid (cp_id c)))"
    by (simp add: restoreByName_def)
  with a show "res_messageCount (fst (restoreByName db client sid nm))
             \<noteq> messageCount checkpoint"
    by (simp add: restoreByName_def restore_failure_not_recorded)
qed

theorem failed_result_fields_witness:
  "\<not> success (fst (restore (exampleDb 5) okClient ''s1'' 1))
   \<and> insufficientMessages (exampleDb 5) okClient ''s1'' 1
   \<and> liveCount okClient ''s1'' = 3
   \<and> getCheckpoint (exampleDb 5) 1 = Some (exampleCheckpoint 5)
   \<and> messageCount (exampleCheckpoint 5) \<noteq> 0
   \<and> newSessionId (fst (restore (exampleDb 5) okClient ''s1'' 1)) = []
   \<and> res_messageCount (fst (restore (exampleDb 5) okClient ''s1'' 1)) = 3
   \<and> res_messageCount (fst (restore (exampleDb 5) okClient ''s1'' 1))
        \<noteq> messageCount (exampleCheckpoint 5)
   \<and> \<not> success (fst (restoreByName (exampleDb 5) okClient ''s1'' ''B''))
   \<and> findCheckpointByName (exampleDb 5) ''s1'' ''B'' = None
   \<and> newSessionId (fst (restoreByName (exampleDb 5) okClient ''s1'' ''B'')) = []
   \<and> res_messageCount (fst (restoreByName (exampleDb 5) okClient ''s1'' ''B'')) = 0"
proof -
  have g: "getCheckpoint (exampleDb 5) 1 = Some (exampleCheckpoint 5)"
    by (rule exampleDb_get)
  have f1: "\<not> success (fst (restore (exampleDb 5) okClient ''s1'' 1))"
    by (simp add: restore_def restoreTry_def g okClient_def)
  have i: "insufficientMessages (exampleDb 5) okClient ''s1'' 1"
    by (simp add: insufficientMessages_def g okClient_def)
  have l: "liveCount okClient ''s1'' = 3"
    by (simp add: liveCount_def okClient_def)
  have n: "findCheckpointByName (exampleDb 5) ''s1'' ''B'' = None"
    by (simp add: findCheckpointByName_def exampleDb_def createCheckpoint_def
        emptyDatabase_def exampleData_def orderByCreatedAtDesc_def sqlLimit_def Let_def)
  have f2: "\<not> success (fst (restoreByName (exampleDb 5) okClient ''s1'' ''B''))"
    by (simp add: restoreByName_def n)
  from failed_result_fields [of "exampleDb 5" okClient "''s1''" 1 "''B''"] f1 f2 i l n g
  show ?thesis by simp
qed

section \<open>The store: ids and lookups\<close>

lemma le_fold_max: "(a::int) \<le> fold max xs a"
  by (induction xs arbitrary: a) (auto intro: order_trans [OF max.cobounded2])

lemma mem_le_fold_max: "x \<in> set xs \<Longrightarrow> (x::int) \<le> fold max xs a"
proof (induction xs arbitrary: a)
  case Nil
  then show ?case by simp
next
  case (Cons y ys)
  show ?case
  proof (cases "x = y")
    case True
    have "max y a \<le> fold max ys (max y a)" by (rule le_fold_max)
    with True show ?thesis by simp
  next
    case False
    with Cons show ?thesis by simp
  qed
qed

lemma nextId_fresh: "r \<in> set (rows db) \<Longrightarrow> cp_id r < nextId db"
  using mem_le_fold_max [of "cp_id r" "map cp_id (rows db)" "autoinc db"]
  by (simp add: nextId_def)

lemma autoinc_less_nextId: "autoinc db < nextId db"
  using le_fold_max [of "autoinc db" "map cp_id (rows db)"] by (simp add: nextId_def)

lemma find_append_found: "find P xs = Some r \<Longrightarrow> find P (xs @ ys) = Some r"
  by (induction xs) auto

lemma find_append_none: "find P xs = None \<Longrightarrow> find P (xs @ ys) = find P ys"
  by (induction xs) (auto split: if_splits)

lemma find_filter_keep: "find P xs = Some r \<Longrightarrow> Q r \<Longrightarrow> find P (filter Q xs) = Some r"
  by (induction xs) (auto split: if_splits)

lemma getCheckpoint_fresh_none: "getCheckpoint db (nextId db) = None"
  using nextId_fresh [of _ db] by (fastforce simp: getCheckpoint_def find_None_iff)

text \<open>
  The invariant holds of the empty table and every command keeps it, so it holds of
  every store the program reaches; with it, a lookup by id finds the one row of that id.
\<close>

lemma wellFormed_empty: "wellFormed emptyDatabase"
  by (simp add: wellFormed_def emptyDatabase_def)

lemma wellFormed_exec:
  assumes "wellFormed db"
  shows "wellFormed (exec stringify emptyObject db c)"
proof (cases c)
  case (Create data now)
  have fresh: "nextId db \<notin> cp_id ` set (rows db)"
    using nextId_fresh [of _ db] by fastforce
  have bound: "list_all (\<lambda>r. cp_id r \<le> nextId db) (rows db)"
    using nextId_fresh [of _ db] by (fastforce simp: list_all_iff)
  from assms fresh bound Create show ?thesis
    by (simp add: wellFormed_def createCheckpoint_def Let_def)
next
  case (Delete j)
  with assms show ?thesis
    by (auto simp: wellFormed_def deleteCheckpoint_def distinct_map_filter list_all_iff)
next
  case (DeleteSession s)
  with assms show ?thesis
    by (auto simp: wellFormed_def deleteSessionCheckpoints_def distinct_map_filter list_all_iff)
qed

lemma wellFormed_run:
  "wellFormed db \<Longrightarrow> wellFormed (run stringify emptyObject db cs)"
  unfolding run_def
  by (induction cs arbitrary: db) (simp_all add: wellFormed_exec)

lemma getCheckpoint_unique:
  assumes "wellFormed db"
  shows "getCheckpoint db i = Some r \<longleftrightarrow> r \<in> set (rows db) \<and> cp_id r = i"
proof
  assume "getCheckpoint db i = Some r"
  then show "r \<in> set (rows db) \<and> cp_id r = i"
    by (auto simp: getCheckpoint_def find_Some_iff)
next
  assume a: "r \<in> set (rows db) \<and> cp_id r = i"
  from assms have d: "distinct (map cp_id (rows db))" by (simp add: wellFormed_def)
  from a obtain r' where f: "getCheckpoint db i = Some r'"
    by (cases "getCheckpoint db i") (auto simp: getCheckpoint_def find_None_iff)
  then have "r' \<in> set (rows db) \<and> cp_id r' = i"
    by (auto simp: getCheckpoint_def find_Some_iff)
  with a d have "r' = r"
    by (metis distinct_map inj_onD)
  with f show "getCheckpoint db i = Some r" by simp
qed

section \<open>Lookup after creation\<close>

lemma getCheckpoint_after_create:
  assumes "createCheckpoint stringify emptyObject now db data = (i, db')"
  shows "getCheckpoint db' i =
     Some \<lparr>cp_id = i, sessionId = data_sessionId data, name = data_name data,
           description = orNull (data_description data),
           messageCount = data_messageCount data,
           gitCommit = orNull (data_gitCommit data), createdAt = now,
           metadata = stringify (case data_metadata data of
                                   None \<Rightarrow> emptyObject | Some m \<Rightarrow> m)\<rparr>"
proof -
  have "find (\<lambda>r. cp_id r = nextId db) (rows db) = None"
    using getCheckpoint_fresh_none [of db] by (simp add: getCheckpoint_def)
  then show ?thesis
    using assms by (auto simp: createCheckpoint_def Let_def getCheckpoint_def find_append_none)
qed

lemma getCheckpoint_exec:
  assumes "getCheckpoint db i = Some r" and "keeps i (sessionId r) c"
  shows "getCheckpoint (exec stringify emptyObject db c) i = Some r"
proof (cases c)
  case (Create data now)
  with assms(1) show ?thesis
    by (simp add: createCheckpoint_def Let_def getCheckpoint_def find_append_found)
next
  case (Delete j)
  with assms show ?thesis
    using find_filter_keep [of "\<lambda>r. cp_id r = i" "rows db" r "\<lambda>r. cp_id r \<noteq> j"]
    by (auto simp: deleteCheckpoint_def getCheckpoint_def keeps_def find_Some_iff)
next
  case (DeleteSession s)
  with assms show ?thesis
    using find_filter_keep [of "\<lambda>r. cp_id r = i" "rows db" r "\<lambda>r. sessionId r \<noteq> s"]
    by (auto simp: deleteSessionCheckpoints_def getCheckpoint_def keeps_def)
qed

lemma getCheckpoint_run:
  assumes "getCheckpoint db i = Some r" and "list_all (keeps i (sessionId r)) cs"
  shows "getCheckpoint (run stringify emptyObject db cs) i = Some r"
  using assms
proof (induction cs arbitrary: db)
  case Nil
  then show ?case by (simp add: run_def)
next
  case (Cons c cs)
  from Cons.prems have "getCheckpoint (exec stringify emptyObject db c) i = Some r"
    by (simp add: getCheckpoint_exec)
  with Cons.IH [of "exec stringify emptyObject db c"] Cons.prems(2)
  show ?case by (simp add: run_def)
qed

lemma orNull_cases: "orNull v = (if v = Some [] then None else v)"
  by (simp add: orNull_def split: option.splits)

text \<open>
  C8, as stated, fails: a checkpoint created with the empty string as its description
  is read back with no description (null).
\<close>

theorem get_after_create_counterexample:
  "data_description emptyDescriptionData = Some []
   \<and> fst (createCheckpoint exampleStringify () 1000 emptyDatabase emptyDescriptionData) = 1
   \<and> getCheckpoint
        (snd (createCheckpoint exampleStringify () 1000 emptyDatabase emptyDescriptionData)) 1
      = Some \<lparr>cp_id = 1, sessionId = ''s1'', name = ''A'', description = None,
               messageCount = 2, gitCommit = Some ''abc123'', createdAt = 1000,
               metadata = ''{}''\<rparr>"
  by (simp add: emptyDescriptionData_def createCheckpoint_def emptyDatabase_def nextId_def
      getCheckpoint_def orNull_def exampleStringify_def)

text \<open>
  C8, amended. After \<^verbatim>\<open>createCheckpoint\<close> returned \<open>i\<close>, and after any later commands
  that delete neither id \<open>i\<close> nor the checkpoint's session, \<^verbatim>\<open>getCheckpoint i\<close> returns
  the record with id \<open>i\<close>, the session id, name and message count that were supplied,
  the description and the git commit that were supplied except that an empty string is
  stored as absent (null), the creation time, and as metadata the JSON text of the
  supplied metadata (of the empty object when none was supplied).
\<close>

theorem get_after_create:
  assumes "createCheckpoint stringify emptyObject now db data = (i, db')"
    and "list_all (keeps i (data_sessionId data)) cs"
  shows "getCheckpoint (run stringify emptyObject db' cs) i =
     Some \<lparr>cp_id = i, sessionId = data_sessionId data, name = data_name data,
           description = (if data_description data = Some [] then None
                          else data_description data),
           messageCount = data_messageCount data,
           gitCommit = (if data_gitCommit data = Some [] then None
                        else data_gitCommit data),
           createdAt = now,
           metadata = stringify (case data_metadata data of
                                   None \<Rightarrow> emptyObject | Some m \<Rightarrow> m)\<rparr>"
proof -
  let ?r = "\<lparr>cp_id = i, sessionId = data_sessionId data, name = data_name data,
           description = orNull (data_description data),
           messageCount = data_messageCount data,
           gitCommit = orNull (data_gitCommit data), createdAt = now,
           metadata = stringify (case data_metadata data of
                                   None \<Rightarrow> emptyObject | Some m \<Rightarrow> m)\<rparr>"
  have "getCheckpoint db' i = Some ?r"
    using assms(1) by (rule getCheckpoint_after_create)
  moreover have "list_all (keeps i (sessionId ?r)) cs"
    using assms(2) by simp
  ultimately have "getCheckpoint (run stringify emptyObject db' cs) i = Some ?r"
    by (rule getCheckpoint_run)
  then show ?thesis by (simp add: orNull_cases)
qed

theorem get_after_create_witness:
  "createCheckpoint exampleStringify () 1000 emptyDatabase fullData
     = (1, snd (createCheckpoint exampleStringify () 1000 emptyDatabase fullData))
   \<and> list_all (keeps 1 (data_sessionId fullData)) laterCommands
   \<and> getCheckpoint
        (run exampleStringify ()
           (snd (createCheckpoint exampleStringify () 1000 emptyDatabase fullData))
           laterCommands) 1
      = Some \<lparr>cp_id = 1, sessionId = ''session-456'', name = ''Full Checkpoint'',
               description = Some ''Before major refactor'', messageCount = 25,
               gitCommit = Some ''abc123def456'', createdAt = 1000, metadata = ''{}''\<rparr>"
proof -
  have h1: "createCheckpoint exampleStringify () 1000 emptyDatabase fullData
     = (1, snd (createCheckpoint exampleStringify () 1000 emptyDatabase fullData))"
    by (simp add: createCheckpoint_def Let_def nextId_def emptyDatabase_def)
  have h2: "list_all (keeps 1 (data_sessionId fullData)) laterCommands"
    by (simp add: laterCommands_def keeps_def fullData_def)
  from get_after_create [OF h1 h2] h1 h2 show ?thesis
    by (simp add: fullData_def exampleStringify_def)
qed

section \<open>Listing and lookup by name\<close>

lemma sorted_orderBy:
  "sorted_wrt (\<lambda>a b. createdAt b \<le> createdAt a) (orderByCreatedAtDesc rs)"
proof -
  have "sorted (map (\<lambda>r. - createdAt r) (sort_key (\<lambda>r. - createdAt r) rs))"
    by (rule sorted_sort_key)
  then show ?thesis
    by (simp add: orderByCreatedAtDesc_def sorted_map)
qed

lemma set_orderBy [simp]: "set (orderByCreatedAtDesc rs) = set rs"
  by (simp add: orderByCreatedAtDesc_def)

lemma length_orderBy [simp]: "length (orderByCreatedAtDesc rs) = length rs"
  by (simp add: orderByCreatedAtDesc_def)

lemma orderBy_stable:
  "filter (\<lambda>r. createdAt r = t) (orderByCreatedAtDesc rs) = filter (\<lambda>r. createdAt r = t) rs"
  using sort_key_stable [of "\<lambda>r. - createdAt r" "- t" rs]
  by (simp add: orderByCreatedAtDesc_def)

lemma set_sqlLimit: "set (sqlLimit limit rs) \<subseteq> set rs"
  by (auto simp: sqlLimit_def dest: in_set_takeD)

lemma sorted_wrt_sqlLimit: "sorted_wrt R rs \<Longrightarrow> sorted_wrt R (sqlLimit limit rs)"
  by (simp add: sqlLimit_def sorted_wrt_take)

text \<open>
  What \<^verbatim>\<open>listCheckpoints\<close> does guarantee: rows of the session only, at most
  \<open>limit\<close> of them for a limit that is not negative, all of them when they are at most
  \<open>limit\<close>, in non-increasing order of \<open>createdAt\<close>.
\<close>

lemma listCheckpoints_session:
  "r \<in> set (listCheckpoints db sid limit) \<Longrightarrow> r \<in> set (rows db) \<and> sessionId r = sid"
  using set_sqlLimit [of limit "orderByCreatedAtDesc (filter (\<lambda>r. sessionId r = sid) (rows db))"]
  by (auto simp: listCheckpoints_def)

lemma listCheckpoints_limit:
  "0 \<le> limit \<Longrightarrow> int (length (listCheckpoints db sid limit)) \<le> limit"
  by (simp add: listCheckpoints_def sqlLimit_def)

lemma listCheckpoints_all:
  "int (length (filter (\<lambda>r. sessionId r = sid) (rows db))) \<le> limit \<Longrightarrow>
   set (listCheckpoints db sid limit) = {r \<in> set (rows db). sessionId r = sid}"
  by (auto simp: listCheckpoints_def sqlLimit_def)

lemma listCheckpoints_sorted:
  "sorted_wrt (\<lambda>a b. createdAt b \<le> createdAt a) (listCheckpoints db sid limit)"
  by (simp add: listCheckpoints_def sorted_wrt_sqlLimit sorted_orderBy)

lemma chronoDb_rows:
  "rows chronoDb =
     [\<lparr>cp_id = 1, sessionId = ''session-chrono'', name = ''First'', description = None,
        messageCount = 5, gitCommit = None, createdAt = 1700000000000, metadata = ''{}''\<rparr>,
      \<lparr>cp_id = 2, sessionId = ''session-chrono'', name = ''Second'', description = None,
        messageCount = 10, gitCommit = None, createdAt = 1700000000000, metadata = ''{}''\<rparr>,
      \<lparr>cp_id = 3, sessionId = ''session-chrono'', name = ''Third'', description = None,
        messageCount = 15, gitCommit = None, createdAt = 1700000000000, metadata = ''{}''\<rparr>]"
  by (simp add: chronoDb_def run_def createCheckpoint_def emptyDatabase_def nextId_def
      chronoData_def orNull_def exampleStringify_def)

text \<open>
  C6. Three checkpoints of one session with equal \<open>createdAt\<close>: \<^verbatim>\<open>listCheckpoints\<close>
  returns them with ascending ids 1, 2, 3, where the claim (and the repository's test)
  has the descending ids 3, 2, 1.
\<close>

theorem listCheckpoints_equal_createdAt:
  "map createdAt (rows chronoDb) = [1700000000000, 1700000000000, 1700000000000]
   \<and> map cp_id (listCheckpointsDefault chronoDb ''session-chrono'') = [1, 2, 3]
   \<and> map cp_id (listCheckpoints chronoDb ''session-chrono'' 2) = [1, 2]"
  by (simp add: chronoDb_rows listCheckpointsDefault_def listCheckpoints_def
      orderByCreatedAtDesc_def sqlLimit_def)

text \<open>
  C7. \<^verbatim>\<open>findCheckpointByName\<close> returns nothing exactly when no row of the session
  has exactly that name (equality of strings, so case matters); otherwise it returns a
  row of the session with exactly that name whose \<open>createdAt\<close> is the maximum over all
  rows of the session with that name.
\<close>

theorem findCheckpointByName_most_recent:
  "(findCheckpointByName db sid nm = None
      \<longleftrightarrow> \<not> (\<exists>r \<in> set (rows db). sessionId r = sid \<and> name r = nm))
   \<and> (\<forall>c. findCheckpointByName db sid nm = Some c \<longrightarrow>
         c \<in> set (rows db) \<and> sessionId c = sid \<and> name c = nm
         \<and> (\<forall>r \<in> set (rows db). sessionId r = sid \<and> name r = nm
               \<longrightarrow> createdAt r \<le> createdAt c))"
proof -
  let ?xs = "filter (\<lambda>r. sessionId r = sid \<and> name r = nm) (rows db)"
  let ?ys = "orderByCreatedAtDesc ?xs"
  have set_ys: "set ?ys = {r \<in> set (rows db). sessionId r = sid \<and> name r = nm}"
    by auto
  have srt: "sorted_wrt (\<lambda>a b. createdAt b \<le> createdAt a) ?ys"
    by (rule sorted_orderBy)
  show ?thesis
  proof (cases ?ys)
    case Nil
    with set_ys have "{r \<in> set (rows db). sessionId r = sid \<and> name r = nm} = {}"
      by simp
    with Nil show ?thesis
      by (auto simp: findCheckpointByName_def sqlLimit_def)
  next
    case (Cons c cs)
    then have res: "findCheckpointByName db sid nm = Some c"
      by (simp add: findCheckpointByName_def sqlLimit_def)
    from Cons set_ys have mem: "c \<in> {r \<in> set (rows db). sessionId r = sid \<and> name r = nm}"
      by (metis list.set_intros(1))
    have top: "createdAt r \<le> createdAt c" if "r \<in> set ?ys" for r
      using that srt Cons by auto
    have "\<forall>r \<in> set (rows db). sessionId r = sid \<and> name r = nm \<longrightarrow> createdAt r \<le> createdAt c"
      using top set_ys by blast
    with res mem show ?thesis by auto
  qed
qed

lemma namedDb_rows:
  "rows namedDb =
     [\<lparr>cp_id = 1, sessionId = ''s1'', name = ''Working State'', description = None,
        messageCount = 10, gitCommit = None, createdAt = 1000, metadata = ''{}''\<rparr>,
      \<lparr>cp_id = 2, sessionId = ''s1'', name = ''Working State'', description = None,
        messageCount = 20, gitCommit = None, createdAt = 3000, metadata = ''{}''\<rparr>,
      \<lparr>cp_id = 3, sessionId = ''s1'', name = ''Working State'', description = None,
        messageCount = 30, gitCommit = None, createdAt = 2000, metadata = ''{}''\<rparr>,
      \<lparr>cp_id = 4, sessionId = ''s2'', name = ''Working State'', description = None,
        messageCount = 40, gitCommit = None, createdAt = 4000, metadata = ''{}''\<rparr>]"
  by (simp add: namedDb_def run_def createCheckpoint_def emptyDatabase_def nextId_def
      namedData_def orNull_def exampleStringify_def)

theorem findCheckpointByName_most_recent_witness:
  "findCheckpointByName namedDb ''s1'' ''Working State'' =
     Some \<lparr>cp_id = 2, sessionId = ''s1'', name = ''Working State'', description = None,
        messageCount = 20, gitCommit = None, createdAt = 3000, metadata = ''{}''\<rparr>
   \<and> map createdAt (rows namedDb) = [1000, 3000, 2000, 4000]
   \<and> map sessionId (rows namedDb) = [''s1'', ''s1'', ''s1'', ''s2'']
   \<and> findCheckpointByName namedDb ''s1'' ''working state'' = None"
proof -
  have a: "findCheckpointByName namedDb ''s1'' ''Working State'' =
     Some \<lparr>cp_id = 2, sessionId = ''s1'', name = ''Working State'', description = None,
        messageCount = 20, gitCommit = None, createdAt = 3000, metadata = ''{}''\<rparr>"
    by (simp add: findCheckpointByName_def namedDb_rows orderByCreatedAtDesc_def sqlLimit_def)
  have b: "\<not> (\<exists>r \<in> set (rows namedDb). sessionId r = ''s1'' \<and> name r = ''working state'')"
    by (simp add: namedDb_rows)
  from findCheckpointByName_most_recent [of namedDb "''s1''" "''working state''"] b
  have c: "findCheckpointByName namedDb ''s1'' ''working state'' = None"
    by blast
  from findCheckpointByName_most_recent [of namedDb "''s1''" "''Working State''"] a c
  show ?thesis by (simp add: namedDb_rows)
qed

end
